theory Spec2Isabelle
  imports Complex_Main
begin

section \<open>Data model\<close>

text \<open>
  The values a weather reading holds: Python's \<open>None\<close> or a number. The numbers of
  the JSON response and the thresholds are modelled as reals (no NaN, no infinity, no
  rounding). The timestamp of a reading, a \<open>datetime\<close>, is written as its number of
  microseconds; the alert engine never looks at it.
\<close>

datatype pyval = PNone | PNum real

text \<open>\<open>weather_data\<close> is a Python dict from field names to values.\<close>

type_synonym weather_data = "string \<rightharpoonup> pyval"

text \<open>\<open>d.get(key, default)\<close>; \<open>d.get(key)\<close> is \<open>get d key PNone\<close>.\<close>

definition get :: "weather_data \<Rightarrow> string \<Rightarrow> pyval \<Rightarrow> pyval" where
  "get d k dflt = (case d k of None \<Rightarrow> dflt | Some v \<Rightarrow> v)"

text \<open>The attributes of \<open>Config\<close> (src/config.py), after \<open>__init__\<close> has read them.\<close>

record config =
  DATABASE_URL :: string
  EMAIL_FROM :: string
  EMAIL_PASSWORD :: string
  EMAIL_TO :: string
  LOCATION :: string
  LATITUDE :: real
  LONGITUDE :: real
  HEAVY_RAIN_THRESHOLD :: real
  STRONG_WIND_THRESHOLD :: real
  EXTREME_TEMP_LOW :: real
  EXTREME_TEMP_HIGH :: real
  SCHEDULE_INTERVAL_MINUTES :: int
  ALERT_COOLDOWN_HOURS :: int

text \<open>\<open>Config.validate\<close>: \<open>all(required)\<close> over the four strings.\<close>

definition validate :: "config \<Rightarrow> bool" where
  "validate cfg =
     (DATABASE_URL cfg \<noteq> [] \<and> EMAIL_FROM cfg \<noteq> [] \<and> EMAIL_PASSWORD cfg \<noteq> [] \<and> EMAIL_TO cfg \<noteq> [])"

text \<open>
  The message of an alert is an f-string with two interpolated numbers, the measured
  value and the threshold; the model keeps the template and the two numbers.
\<close>

datatype message =
    HeavyRainfallDetected real real
  | StrongWindDetected real real
  | ExtremeColdDetected real real
  | ExtremeHeatDetected real real

text \<open>An alert is the dict with the keys \<open>type\<close>, \<open>severity\<close> and \<open>message\<close>
  (here \<open>a_type\<close>, \<open>a_severity\<close>, \<open>a_message\<close>).\<close>

record alert =
  a_type :: string
  a_severity :: string
  a_message :: message

section \<open>Threshold evaluation (\<open>AlertEngine.check_and_send_alerts\<close>, lines 29 to 71)\<close>

text \<open>
  The value of the local list \<open>alerts\<close> when the loop over it starts. The test
  \<open>precipitation and precipitation >= threshold\<close> is false on \<open>None\<close> and on zero.
\<close>

definition alerts :: "config \<Rightarrow> weather_data \<Rightarrow> alert list" where
  "alerts cfg weather_data =
     (let precipitation = get weather_data ''precipitation'' (PNum 0);
          wind_speed = get weather_data ''wind_speed'' (PNum 0);
          temperature = get weather_data ''temperature'' PNone
      in (case precipitation of
            PNone \<Rightarrow> []
          | PNum p \<Rightarrow>
              if p \<noteq> 0 \<and> p \<ge> HEAVY_RAIN_THRESHOLD cfg
              then [\<lparr>a_type = ''HEAVY_RAIN'', a_severity = ''HIGH'',
                     a_message = HeavyRainfallDetected p (HEAVY_RAIN_THRESHOLD cfg)\<rparr>]
              else [])
       @ (case wind_speed of
            PNone \<Rightarrow> []
          | PNum v \<Rightarrow>
              if v \<noteq> 0 \<and> v \<ge> STRONG_WIND_THRESHOLD cfg
              then [\<lparr>a_type = ''STRONG_WIND'', a_severity = ''HIGH'',
                     a_message = StrongWindDetected v (STRONG_WIND_THRESHOLD cfg)\<rparr>]
              else [])
       @ (case temperature of
            PNone \<Rightarrow> []
          | PNum t \<Rightarrow>
              if t \<le> EXTREME_TEMP_LOW cfg
              then [\<lparr>a_type = ''EXTREME_COLD'', a_severity = ''MEDIUM'',
                     a_message = ExtremeColdDetected t (EXTREME_TEMP_LOW cfg)\<rparr>]
              else if t \<ge> EXTREME_TEMP_HIGH cfg
              then [\<lparr>a_type = ''EXTREME_HEAT'', a_severity = ''HIGH'',
                     a_message = ExtremeHeatDetected t (EXTREME_TEMP_HIGH cfg)\<rparr>]
              else []))"

text \<open>The alerts of one kind among those raised, and the kinds raised, in order.\<close>

definition alerts_of_type :: "string \<Rightarrow> alert list \<Rightarrow> alert list" where
  "alerts_of_type t as = filter (\<lambda>a. a_type a = t) as"

definition alert_types :: "config \<Rightarrow> weather_data \<Rightarrow> string list" where
  "alert_types cfg weather_data = map a_type (alerts cfg weather_data)"

text \<open>A field is missing when its key is absent or its value is \<open>None\<close>.\<close>

definition missing :: "weather_data \<Rightarrow> string \<Rightarrow> bool" where
  "missing d k = (d k = None \<or> d k = Some PNone)"

section \<open>The collaborators: database, mail server, weather API\<close>

text \<open>
  The rows of the two tables. A timestamp is a number of microseconds; a missing field
  of a reading is stored as \<open>PNone\<close> (SQL NULL).
\<close>

record weather_row =
  w_timestamp :: pyval
  w_location :: string
  w_latitude :: real
  w_longitude :: real
  w_temperature :: pyval
  w_precipitation :: pyval
  w_wind_speed :: pyval
  w_humidity :: pyval
  w_weather_code :: pyval

record alert_row =
  row_timestamp :: int
  row_alert_type :: string
  row_severity :: string
  row_message :: message
  row_email_sent :: bool

text \<open>
  Every call that leaves the process is recorded, in order: the HTTP request of
  \<open>get_current_weather\<close>, the calls of the \<open>Database\<close> methods and the call of
  \<open>_send_email_alert\<close>. A call is recorded when the method is entered, whatever
  happens inside.
\<close>

datatype call =
    HttpGet real real
  | SelectOne
  | InsertWeatherData weather_row
  | InsertAlertLog string string message bool
  | GetRecentAlerts string int
  | SendEmailAlert alert

text \<open>
  The state: the two tables, the calls made so far, and the lines written with
  \<open>logger.error\<close> (the fixed part of each line; \<open>logger.info\<close> lines are not kept).
\<close>

record world =
  weather_data_table :: "weather_row list"
  alert_log :: "alert_row list"
  calls :: "call list"
  errors_logged :: "string list"

definition record_call :: "call \<Rightarrow> world \<Rightarrow> world" where
  "record_call c w = w\<lparr>calls := calls w @ [c]\<rparr>"

definition log_error :: "string \<Rightarrow> world \<Rightarrow> world" where
  "log_error msg w = w\<lparr>errors_logged := errors_logged w @ [msg]\<rparr>"

text \<open>The calls made between an earlier state and a later one.\<close>

definition new_calls :: "world \<Rightarrow> world \<Rightarrow> call list" where
  "new_calls w w' = drop (length (calls w)) (calls w')"

text \<open>
  What the outside does at a call is not decided by the program. A database method
  first runs \<open>_get_connection\<close>, which returns the cached connection or connects and
  may raise; then the cursor, \<open>execute\<close>, \<open>commit\<close> or \<open>fetchall\<close> may raise; and
  in the handlers of the two insert methods \<open>conn.rollback()\<close> may raise as well (on a
  connection that is gone). A statement that raises stores nothing.
\<close>

datatype db_outcome =
    Completed
  | ConnectRaises
  | OperationRaises bool  \<comment> \<open>whether \<open>conn.rollback()\<close> then succeeds\<close>

text \<open>
  The HTTP request raises a \<open>RequestException\<close>, or gives a status code and a body.
  The body either cannot be used (\<open>response.json()\<close> or a lookup on its result
  raises) or is an object whose \<open>current\<close> entry, if there is one, is a dict of
  fields. For a body that cannot be used, the flag tells whether the exception is a
  \<open>RequestException\<close> (as the \<open>JSONDecodeError\<close> of requests 2.27 and later is) or
  any other exception: the two are caught by different handlers.
\<close>

datatype body = Unusable bool | Json "weather_data option"

datatype http_outcome = RequestException | Response int body

text \<open>
  The environment gives the outcome of the \<open>n\<close>-th recorded call and what the two
  clocks show when it happens, in microseconds: \<open>utcnow\<close> is the client's
  \<open>datetime.utcnow()\<close>, a naive value; \<open>server_now\<close> is the instant that SQL
  \<open>NOW()\<close> returns on the database server. \<open>time_zone\<close> is the offset from UTC of
  the TimeZone of the database sessions (0 for UTC, positive to the east).
\<close>

record env =
  http :: "nat \<Rightarrow> http_outcome"
  db :: "nat \<Rightarrow> db_outcome"
  smtp :: "nat \<Rightarrow> bool"
  utcnow :: "nat \<Rightarrow> int"
  server_now :: "nat \<Rightarrow> int"
  time_zone :: int

text \<open>Exceptions that leave a method.\<close>

datatype error =
    UnboundLocalError  \<comment> \<open>\<open>if conn:\<close> in a handler, when \<open>_get_connection\<close> raised before \<open>conn\<close> was bound\<close>
  | DatabaseError      \<comment> \<open>raised by \<open>conn.rollback()\<close> in a handler\<close>

section \<open>\<open>Database\<close> (src/database.py)\<close>

definition test_connection :: "env \<Rightarrow> world \<Rightarrow> bool \<times> world" where
  "test_connection e w =
     (let n = length (calls w); w1 = record_call SelectOne w
      in case db e n of
           Completed \<Rightarrow> (True, w1)
         | ConnectRaises \<Rightarrow>
             (False, log_error ''Connection test failed''
                       (log_error ''Failed to connect to database'' w1))
         | OperationRaises _ \<Rightarrow> (False, log_error ''Connection test failed'' w1))"

definition insert_weather_data ::
  "env \<Rightarrow> string \<Rightarrow> real \<Rightarrow> real \<Rightarrow> weather_data \<Rightarrow> world \<Rightarrow> (error + bool) \<times> world" where
  "insert_weather_data e location latitude longitude weather_data w =
     (let n = length (calls w);
          values = \<lparr>w_timestamp = get weather_data ''timestamp'' PNone,
                    w_location = location,
                    w_latitude = latitude,
                    w_longitude = longitude,
                    w_temperature = get weather_data ''temperature'' PNone,
                    w_precipitation = get weather_data ''precipitation'' PNone,
                    w_wind_speed = get weather_data ''wind_speed'' PNone,
                    w_humidity = get weather_data ''humidity'' PNone,
                    w_weather_code = get weather_data ''weather_code'' PNone\<rparr>;
          w1 = record_call (InsertWeatherData values) w
      in case db e n of
           Completed \<Rightarrow>
             (Inr True, w1\<lparr>weather_data_table := weather_data_table w1 @ [values]\<rparr>)
         | ConnectRaises \<Rightarrow>
             (Inl UnboundLocalError,
              log_error ''Failed to insert weather data''
                (log_error ''Failed to connect to database'' w1))
         | OperationRaises rollback_ok \<Rightarrow>
             (if rollback_ok then Inr False else Inl DatabaseError,
              log_error ''Failed to insert weather data'' w1))"

definition insert_alert_log ::
  "env \<Rightarrow> string \<Rightarrow> string \<Rightarrow> message \<Rightarrow> bool \<Rightarrow> world \<Rightarrow> (error + bool) \<times> world" where
  "insert_alert_log e alert_type severity message email_sent w =
     (let n = length (calls w);
          values = \<lparr>row_timestamp = utcnow e n,
                    row_alert_type = alert_type,
                    row_severity = severity,
                    row_message = message,
                    row_email_sent = email_sent\<rparr>;
          w1 = record_call (InsertAlertLog alert_type severity message email_sent) w
      in case db e n of
           Completed \<Rightarrow> (Inr True, w1\<lparr>alert_log := alert_log w1 @ [values]\<rparr>)
         | ConnectRaises \<Rightarrow>
             (Inl UnboundLocalError,
              log_error ''Failed to insert alert log''
                (log_error ''Failed to connect to database'' w1))
         | OperationRaises rollback_ok \<Rightarrow>
             (if rollback_ok then Inr False else Inl DatabaseError,
              log_error ''Failed to insert alert log'' w1))"

text \<open>
  The interval of the query, \<open>INTERVAL 'hours hours'\<close>, in microseconds.
\<close>

definition interval_hours :: "int \<Rightarrow> int" where
  "interval_hours hours = hours * 3600000000"

text \<open>
  The rows the query selects when \<open>NOW()\<close> is \<open>now\<close>:
  \<open>alert_type = %s AND timestamp > NOW() - INTERVAL '%s hours' ORDER BY timestamp DESC\<close>.
  The declaration of the table is not among the sources. The timestamp of a row is the
  naive value of \<open>datetime.utcnow()\<close> that the client sent; \<open>NOW()\<close> is a timestamp
  with time zone, and the comparison reads the naive value as local time of the session's
  TimeZone, of offset \<open>zone\<close>: a row of timestamp \<open>v\<close> stands for the instant
  \<open>v - zone\<close>.
\<close>

definition recent_rows ::
  "int \<Rightarrow> int \<Rightarrow> string \<Rightarrow> int \<Rightarrow> alert_row list \<Rightarrow> alert_row list" where
  "recent_rows now zone alert_type hours rows =
     rev (sort_key row_timestamp
            (filter (\<lambda>r. row_alert_type r = alert_type
                          \<and> row_timestamp r - zone > now - interval_hours hours) rows))"

definition get_recent_alerts ::
  "env \<Rightarrow> string \<Rightarrow> int \<Rightarrow> world \<Rightarrow> alert_row list \<times> world" where
  "get_recent_alerts e alert_type hours w =
     (let n = length (calls w); w1 = record_call (GetRecentAlerts alert_type hours) w
      in case db e n of
           Completed \<Rightarrow>
             (recent_rows (server_now e n) (time_zone e) alert_type hours (alert_log w), w1)
         | ConnectRaises \<Rightarrow>
             ([], log_error ''Failed to get recent alerts''
                    (log_error ''Failed to connect to database'' w1))
         | OperationRaises _ \<Rightarrow> ([], log_error ''Failed to get recent alerts'' w1))"

section \<open>\<open>AlertEngine\<close> (src/alert_engine.py)\<close>

text \<open>
  \<open>_send_email_alert\<close>: everything is inside \<open>try\<close>, any exception gives \<open>False\<close>.
\<close>

definition send_email_alert ::
  "env \<Rightarrow> config \<Rightarrow> alert \<Rightarrow> weather_data \<Rightarrow> world \<Rightarrow> bool \<times> world" where
  "send_email_alert e cfg alert weather_data w =
     (let n = length (calls w); w1 = record_call (SendEmailAlert alert) w
      in if smtp e n then (True, w1)
         else (False, log_error ''Failed to send email alert'' w1))"

text \<open>
  \<open>_process_alert\<close> returns nothing; what \<open>insert_alert_log\<close> returns is dropped, what
  it raises goes on to the caller.
\<close>

definition discard :: "(error + bool) \<times> world \<Rightarrow> (error + unit) \<times> world" where
  "discard r = (case r of (Inl err, w) \<Rightarrow> (Inl err, w) | (Inr _, w) \<Rightarrow> (Inr (), w))"

definition process_alert ::
  "env \<Rightarrow> config \<Rightarrow> alert \<Rightarrow> weather_data \<Rightarrow> world \<Rightarrow> (error + unit) \<times> world" where
  "process_alert e cfg alert weather_data w =
     (case get_recent_alerts e (a_type alert) (ALERT_COOLDOWN_HOURS cfg) w of
        (recent_alerts, w1) \<Rightarrow>
          if recent_alerts \<noteq> []
          then discard (insert_alert_log e (a_type alert) (a_severity alert)
                          (a_message alert) False w1)
          else (case send_email_alert e cfg alert weather_data w1 of
                  (email_sent, w2) \<Rightarrow>
                    discard (insert_alert_log e (a_type alert) (a_severity alert)
                               (a_message alert) email_sent w2)))"

text \<open>The loop \<open>for alert in alerts\<close>: an exception ends it.\<close>

fun process_alerts ::
  "env \<Rightarrow> config \<Rightarrow> alert list \<Rightarrow> weather_data \<Rightarrow> world \<Rightarrow> (error + unit) \<times> world" where
  "process_alerts e cfg [] weather_data w = (Inr (), w)"
| "process_alerts e cfg (alert # rest) weather_data w =
     (case process_alert e cfg alert weather_data w of
        (Inl err, w1) \<Rightarrow> (Inl err, w1)
      | (Inr _, w1) \<Rightarrow> process_alerts e cfg rest weather_data w1)"

definition check_and_send_alerts ::
  "env \<Rightarrow> config \<Rightarrow> weather_data \<Rightarrow> world \<Rightarrow> (error + unit) \<times> world" where
  "check_and_send_alerts e cfg weather_data w =
     process_alerts e cfg (alerts cfg weather_data) weather_data w"

section \<open>\<open>WeatherAPIClient.get_current_weather\<close> (src/api_client.py)\<close>

text \<open>
  The result is the dict of six keys or \<open>None\<close>. The handler for
  \<open>RequestException\<close> comes first, the one for any other exception second.
\<close>

definition get_current_weather ::
  "env \<Rightarrow> real \<Rightarrow> real \<Rightarrow> world \<Rightarrow> weather_data option \<times> world" where
  "get_current_weather e latitude longitude w =
     (let n = length (calls w); w1 = record_call (HttpGet latitude longitude) w
      in case http e n of
           RequestException \<Rightarrow> (None, log_error ''Error fetching weather data'' w1)
         | Response status_code b \<Rightarrow>
             if status_code = 200
             then (case b of
                     Unusable request_exception \<Rightarrow>
                       (None, log_error (if request_exception
                                         then ''Error fetching weather data''
                                         else ''Unexpected error'') w1)
                   | Json cur \<Rightarrow>
                       let current = (case cur of None \<Rightarrow> Map.empty | Some c \<Rightarrow> c)
                       in (Some [''timestamp'' \<mapsto> PNum (of_int (utcnow e n)),
                                 ''temperature'' \<mapsto> get current ''temperature_2m'' PNone,
                                 ''precipitation'' \<mapsto> get current ''precipitation'' (PNum 0),
                                 ''wind_speed'' \<mapsto> get current ''wind_speed_10m'' PNone,
                                 ''humidity'' \<mapsto> get current ''relative_humidity_2m'' PNone,
                                 ''weather_code'' \<mapsto> get current ''weather_code'' PNone],
                           w1))
             else (None, log_error ''API request failed with status'' w1))"

section \<open>The pipeline (main.py)\<close>

text \<open>
  \<open>run_pipeline\<close>, one cycle, for a configuration that \<open>Config()\<close> has built. The
  test \<open>if not weather_data\<close> holds for \<open>None\<close> and for an empty dict. Every
  exception is caught at the end of the function, which then returns \<open>False\<close>.
\<close>

definition run_pipeline :: "env \<Rightarrow> config \<Rightarrow> world \<Rightarrow> bool \<times> world" where
  "run_pipeline e cfg w =
     (case get_current_weather e (LATITUDE cfg) (LONGITUDE cfg) w of
        (None, w1) \<Rightarrow> (False, log_error ''Failed to fetch weather data'' w1)
      | (Some weather_data, w1) \<Rightarrow>
          if weather_data = Map.empty
          then (False, log_error ''Failed to fetch weather data'' w1)
          else (case insert_weather_data e (LOCATION cfg) (LATITUDE cfg) (LONGITUDE cfg)
                       weather_data w1 of
                  (Inl err, w2) \<Rightarrow> (False, log_error ''Pipeline execution failed'' w2)
                | (Inr success, w2) \<Rightarrow>
                    if \<not> success
                    then (False, log_error ''Failed to store weather data'' w2)
                    else (case check_and_send_alerts e cfg weather_data w2 of
                            (Inl err, w3) \<Rightarrow>
                              (False, log_error ''Pipeline execution failed'' w3)
                          | (Inr _, w3) \<Rightarrow> (True, w3))))"

text \<open>
  \<open>main\<close>, from its start to the end of the first call of \<open>run_pipeline\<close>: the
  configuration is loaded, the connection is tested, and the pipeline runs once. The
  scheduler thread and the sleeping loop that follow are not modelled.
\<close>

definition main :: "env \<Rightarrow> config \<Rightarrow> world \<Rightarrow> world" where
  "main e cfg w =
     (case test_connection e w of
        (ok, w1) \<Rightarrow>
          if \<not> ok
          then log_error ''Database connection failed. Please check configuration.'' w1
          else snd (run_pipeline e cfg w1))"

section \<open>Concrete inputs\<close>

text \<open>The defaults of \<open>Config\<close>, with the four required strings filled in.\<close>

definition default_config :: config where
  "default_config =
     \<lparr>DATABASE_URL = ''postgresql://db'', EMAIL_FROM = ''from@example.com'',
      EMAIL_PASSWORD = ''secret'', EMAIL_TO = ''to@example.com'',
      LOCATION = ''Vancouver'', LATITUDE = 49.2827, LONGITUDE = - 123.1207,
      HEAVY_RAIN_THRESHOLD = 10, STRONG_WIND_THRESHOLD = 50,
      EXTREME_TEMP_LOW = 0, EXTREME_TEMP_HIGH = 35,
      SCHEDULE_INTERVAL_MINUTES = 60, ALERT_COOLDOWN_HOURS = 6\<rparr>"

text \<open>The reading of test_alert.py.\<close>

definition test_data :: weather_data where
  "test_data =
     [''timestamp'' \<mapsto> PNum 0, ''temperature'' \<mapsto> PNum 30, ''precipitation'' \<mapsto> PNum 15,
      ''wind_speed'' \<mapsto> PNum 60, ''humidity'' \<mapsto> PNum 85]"

definition empty_world :: world where
  "empty_world = \<lparr>weather_data_table = [], alert_log = [], calls = [], errors_logged = []\<rparr>"

text \<open>
  An environment where everything works and the API answers with the reading above,
  and one where the database cannot be reached. Both clocks stand still at 0 and the
  sessions are in UTC.
\<close>

definition http_test_data :: "nat \<Rightarrow> http_outcome" where
  "http_test_data n =
     Response 200 (Json (Some [''temperature_2m'' \<mapsto> PNum 30, ''precipitation'' \<mapsto> PNum 15,
                               ''wind_speed_10m'' \<mapsto> PNum 60, ''relative_humidity_2m'' \<mapsto> PNum 85]))"

definition db_completes :: "nat \<Rightarrow> db_outcome" where
  "db_completes n = Completed"

definition db_unreachable :: "nat \<Rightarrow> db_outcome" where
  "db_unreachable n = ConnectRaises"

definition smtp_accepts :: "nat \<Rightarrow> bool" where
  "smtp_accepts n = True"

definition smtp_refuses :: "nat \<Rightarrow> bool" where
  "smtp_refuses n = False"

definition clock_zero :: "nat \<Rightarrow> int" where
  "clock_zero n = 0"

definition env_up :: env where
  "env_up =
     \<lparr>http = http_test_data, db = db_completes, smtp = smtp_accepts,
      utcnow = clock_zero, server_now = clock_zero, time_zone = 0\<rparr>"

definition env_db_down :: env where
  "env_db_down =
     \<lparr>http = http_test_data, db = db_unreachable, smtp = smtp_accepts,
      utcnow = clock_zero, server_now = clock_zero, time_zone = 0\<rparr>"

text \<open>
  Configurations with unusual thresholds: rain and wind thresholds at or below zero,
  and a low-temperature threshold above the high-temperature one.
\<close>

definition lenient_config :: config where
  "lenient_config = default_config\<lparr>HEAVY_RAIN_THRESHOLD := 0, STRONG_WIND_THRESHOLD := - 5\<rparr>"

definition inverted_config :: config where
  "inverted_config = default_config\<lparr>EXTREME_TEMP_LOW := 35, EXTREME_TEMP_HIGH := 0\<rparr>"

text \<open>
  Readings: no rain and no wind; rain exactly at the default threshold; temperature and
  wind reported as \<open>None\<close> and no precipitation key; a mild temperature alone.
\<close>

definition dry_reading :: weather_data where
  "dry_reading = [''temperature'' \<mapsto> PNum 20, ''precipitation'' \<mapsto> PNum 0, ''wind_speed'' \<mapsto> PNum 0]"

definition boundary_reading :: weather_data where
  "boundary_reading = [''precipitation'' \<mapsto> PNum 10]"

definition unmeasured_reading :: weather_data where
  "unmeasured_reading = [''temperature'' \<mapsto> PNone, ''wind_speed'' \<mapsto> PNone]"

definition mild_reading :: weather_data where
  "mild_reading = [''temperature'' \<mapsto> PNum 20]"

text \<open>
  The HEAVY_RAIN alert of the reading of test_alert.py, and a state whose alert log
  holds one HEAVY_RAIN row, written at time 0.
\<close>

definition heavy_rain_alert :: alert where
  "heavy_rain_alert =
     \<lparr>a_type = ''HEAVY_RAIN'', a_severity = ''HIGH'', a_message = HeavyRainfallDetected 15 10\<rparr>"

definition earlier_rain_row :: alert_row where
  "earlier_rain_row =
     \<lparr>row_timestamp = 0, row_alert_type = ''HEAVY_RAIN'', row_severity = ''HIGH'',
      row_message = HeavyRainfallDetected 12 10, row_email_sent = True\<rparr>"

definition world_after_rain :: world where
  "world_after_rain = empty_world\<lparr>alert_log := [earlier_rain_row]\<rparr>"

text \<open>
  Further environments: both clocks at a given time, in UTC sessions and in sessions
  one hour east of UTC; a database whose first call fails
  (the statement raises, the rollback works) and whose later calls work; an API that
  cannot be reached; a mail server that refuses every message.
\<close>

definition clock_at :: "int \<Rightarrow> nat \<Rightarrow> int" where
  "clock_at t n = t"

definition env_at :: "int \<Rightarrow> env" where
  "env_at t = env_up\<lparr>utcnow := clock_at t, server_now := clock_at t\<rparr>"

definition env_east_at :: "int \<Rightarrow> env" where
  "env_east_at t = (env_at t)\<lparr>time_zone := 3600000000\<rparr>"

text \<open>
  A configuration with a cooldown of two hours, and the state after a HEAVY_RAIN alert
  was dispatched at five hours on the log above, inside the cooldown of six hours.
\<close>

definition short_cooldown_config :: config where
  "short_cooldown_config = default_config\<lparr>ALERT_COOLDOWN_HOURS := 2\<rparr>"


definition db_first_call_fails :: "nat \<Rightarrow> db_outcome" where
  "db_first_call_fails n = (if n = 0 then OperationRaises True else Completed)"

definition env_query_fails :: env where
  "env_query_fails = env_up\<lparr>db := db_first_call_fails\<rparr>"

definition http_fails :: "nat \<Rightarrow> http_outcome" where
  "http_fails n = RequestException"

definition env_api_down :: env where
  "env_api_down = env_up\<lparr>http := http_fails\<rparr>"

definition env_mail_down :: env where
  "env_mail_down = env_up\<lparr>smtp := smtp_refuses\<rparr>"

section \<open>Observations on the recorded calls\<close>

text \<open>The notifier was invoked for an alert between two states.\<close>

definition notified :: "alert \<Rightarrow> world \<Rightarrow> world \<Rightarrow> bool" where
  "notified a w w' = (SendEmailAlert a \<in> set (new_calls w w'))"

text \<open>A pipeline cycle started between two states: its first step is the HTTP request.\<close>

definition cycle_started :: "config \<Rightarrow> world \<Rightarrow> world \<Rightarrow> bool" where
  "cycle_started cfg w w' = (HttpGet (LATITUDE cfg) (LONGITUDE cfg) \<in> set (new_calls w w'))"

text \<open>The kinds for which \<open>insert_alert_log\<close> was called, in order.\<close>

fun audited_types :: "call list \<Rightarrow> string list" where
  "audited_types [] = []"
| "audited_types (InsertAlertLog t s m b # cs) = t # audited_types cs"
| "audited_types (c # cs) = audited_types cs"

section \<open>Properties of the threshold evaluation\<close>

lemma alerts_test_data:
  "alert_types default_config test_data = [''HEAVY_RAIN'', ''STRONG_WIND'']"
  by (simp add: alert_types_def alerts_def get_def default_config_def test_data_def)

text \<open>
  C3, as the code has it. For a reading whose precipitation is a number \<open>p\<close>, the
  evaluation returns a HEAVY_RAIN alert, of severity HIGH, exactly when \<open>p\<close> is not zero
  and \<open>p\<close> is greater than or equal to the heavy-rain threshold, and then exactly one;
  so a precipitation equal to a threshold other than zero raises the alert.
\<close>

theorem heavy_rain_rule:
  assumes "weather_data ''precipitation'' = Some (PNum p)"
  shows "alerts_of_type ''HEAVY_RAIN'' (alerts cfg weather_data) =
           (if p \<noteq> 0 \<and> p \<ge> HEAVY_RAIN_THRESHOLD cfg
            then [\<lparr>a_type = ''HEAVY_RAIN'', a_severity = ''HIGH'',
                   a_message = HeavyRainfallDetected p (HEAVY_RAIN_THRESHOLD cfg)\<rparr>]
            else [])"
  using assms
  by (simp add: alerts_of_type_def alerts_def get_def split: pyval.splits option.splits)

theorem heavy_rain_rule_witness:
  "boundary_reading ''precipitation'' = Some (PNum 10)
   \<and> HEAVY_RAIN_THRESHOLD default_config = 10
   \<and> alerts_of_type ''HEAVY_RAIN'' (alerts default_config boundary_reading) =
       [\<lparr>a_type = ''HEAVY_RAIN'', a_severity = ''HIGH'',
         a_message = HeavyRainfallDetected 10 10\<rparr>]"
proof -
  have h: "boundary_reading ''precipitation'' = Some (PNum 10)"
    by (simp add: boundary_reading_def)
  have t: "HEAVY_RAIN_THRESHOLD default_config = 10"
    by (simp add: default_config_def)
  show ?thesis
    using h t heavy_rain_rule [of boundary_reading 10 default_config] by simp
qed

text \<open>
  C3, as the claim states it, fails: with the threshold at 0 and a precipitation of 0,
  present in the reading and equal to the threshold, no HEAVY_RAIN alert is returned.
\<close>

theorem heavy_rain_zero_counterexample:
  "dry_reading ''precipitation'' = Some (PNum 0)
   \<and> 0 \<ge> HEAVY_RAIN_THRESHOLD lenient_config
   \<and> alerts_of_type ''HEAVY_RAIN'' (alerts lenient_config dry_reading) = []"
  by (simp add: alerts_of_type_def alerts_def get_def dry_reading_def lenient_config_def
      default_config_def)

text \<open>
  C4. A missing field (key absent, or value \<open>None\<close>) never raises its alert, whatever
  the thresholds: no HEAVY_RAIN without precipitation, no STRONG_WIND without wind
  speed, neither EXTREME_COLD nor EXTREME_HEAT without temperature.
\<close>

theorem missing_field_never_triggers:
  "(missing weather_data ''precipitation'' \<longrightarrow>
      ''HEAVY_RAIN'' \<notin> set (alert_types cfg weather_data))
   \<and> (missing weather_data ''wind_speed'' \<longrightarrow>
      ''STRONG_WIND'' \<notin> set (alert_types cfg weather_data))
   \<and> (missing weather_data ''temperature'' \<longrightarrow>
      ''EXTREME_COLD'' \<notin> set (alert_types cfg weather_data)
      \<and> ''EXTREME_HEAT'' \<notin> set (alert_types cfg weather_data))"
  by (auto simp add: missing_def alert_types_def alerts_def get_def
      split: pyval.splits option.splits)

theorem missing_field_never_triggers_witness:
  "missing unmeasured_reading ''precipitation''
   \<and> missing unmeasured_reading ''wind_speed''
   \<and> missing unmeasured_reading ''temperature''
   \<and> ''HEAVY_RAIN'' \<notin> set (alert_types lenient_config unmeasured_reading)
   \<and> ''STRONG_WIND'' \<notin> set (alert_types lenient_config unmeasured_reading)
   \<and> ''EXTREME_COLD'' \<notin> set (alert_types lenient_config unmeasured_reading)
   \<and> ''EXTREME_HEAT'' \<notin> set (alert_types lenient_config unmeasured_reading)"
proof -
  have p: "missing unmeasured_reading ''precipitation''"
    by (simp add: missing_def unmeasured_reading_def)
  have v: "missing unmeasured_reading ''wind_speed''"
    by (simp add: missing_def unmeasured_reading_def)
  have t: "missing unmeasured_reading ''temperature''"
    by (simp add: missing_def unmeasured_reading_def)
  show ?thesis
    using p v t missing_field_never_triggers [of unmeasured_reading lenient_config]
    by simp
qed

text \<open>
  C5. One evaluation never returns both EXTREME_COLD and EXTREME_HEAT, and at most one
  alert of the two kinds; the low threshold is tested first, so a temperature at or
  below it gives EXTREME_COLD and not EXTREME_HEAT, also when it is at or above the
  high threshold.
\<close>

theorem cold_and_heat_exclusive:
  "\<not> (''EXTREME_COLD'' \<in> set (alert_types cfg weather_data)
       \<and> ''EXTREME_HEAT'' \<in> set (alert_types cfg weather_data))
   \<and> length (alerts_of_type ''EXTREME_COLD'' (alerts cfg weather_data)
             @ alerts_of_type ''EXTREME_HEAT'' (alerts cfg weather_data)) \<le> 1
   \<and> (weather_data ''temperature'' = Some (PNum t) \<and> t \<le> EXTREME_TEMP_LOW cfg \<longrightarrow>
        ''EXTREME_COLD'' \<in> set (alert_types cfg weather_data)
        \<and> ''EXTREME_HEAT'' \<notin> set (alert_types cfg weather_data))"
  by (auto simp add: alert_types_def alerts_of_type_def alerts_def get_def
      split: pyval.splits option.splits)

theorem cold_and_heat_exclusive_witness:
  "mild_reading ''temperature'' = Some (PNum 20)
   \<and> 20 \<le> EXTREME_TEMP_LOW inverted_config
   \<and> 20 \<ge> EXTREME_TEMP_HIGH inverted_config
   \<and> ''EXTREME_COLD'' \<in> set (alert_types inverted_config mild_reading)
   \<and> ''EXTREME_HEAT'' \<notin> set (alert_types inverted_config mild_reading)"
proof -
  have r: "mild_reading ''temperature'' = Some (PNum 20)"
    by (simp add: mild_reading_def)
  have lo: "20 \<le> EXTREME_TEMP_LOW inverted_config"
    by (simp add: inverted_config_def default_config_def)
  have hi: "20 \<ge> EXTREME_TEMP_HIGH inverted_config"
    by (simp add: inverted_config_def default_config_def)
  show ?thesis
    using r lo hi cold_and_heat_exclusive [of inverted_config mild_reading 20]
    by simp
qed

text \<open>
  C10. A precipitation of exactly 0 never raises HEAVY_RAIN and a wind speed of exactly 0
  never raises STRONG_WIND, whatever the thresholds, also when the threshold is zero or
  negative: the test on the value itself treats zero as it treats a missing field.
\<close>

theorem zero_value_never_triggers:
  "(weather_data ''precipitation'' = Some (PNum 0) \<longrightarrow>
      ''HEAVY_RAIN'' \<notin> set (alert_types cfg weather_data))
   \<and> (weather_data ''wind_speed'' = Some (PNum 0) \<longrightarrow>
      ''STRONG_WIND'' \<notin> set (alert_types cfg weather_data))"
  by (auto simp add: alert_types_def alerts_def get_def split: pyval.splits option.splits)

theorem zero_value_never_triggers_witness:
  "dry_reading ''precipitation'' = Some (PNum 0)
   \<and> dry_reading ''wind_speed'' = Some (PNum 0)
   \<and> 0 \<ge> HEAVY_RAIN_THRESHOLD lenient_config
   \<and> 0 \<ge> STRONG_WIND_THRESHOLD lenient_config
   \<and> ''HEAVY_RAIN'' \<notin> set (alert_types lenient_config dry_reading)
   \<and> ''STRONG_WIND'' \<notin> set (alert_types lenient_config dry_reading)"
proof -
  have p: "dry_reading ''precipitation'' = Some (PNum 0)"
    by (simp add: dry_reading_def)
  have v: "dry_reading ''wind_speed'' = Some (PNum 0)"
    by (simp add: dry_reading_def)
  have th: "0 \<ge> HEAVY_RAIN_THRESHOLD lenient_config \<and> 0 \<ge> STRONG_WIND_THRESHOLD lenient_config"
    by (simp add: lenient_config_def default_config_def)
  show ?thesis
    using p v th zero_value_never_triggers [of dry_reading lenient_config]
    by simp
qed

section \<open>Effects of the collaborators' methods\<close>

lemma calls_record_call: "calls (record_call c w) = calls w @ [c]"
  by (simp add: record_call_def)

lemma calls_log_error: "calls (log_error m w) = calls w"
  by (simp add: log_error_def)

lemma alert_log_record_call: "alert_log (record_call c w) = alert_log w"
  by (simp add: record_call_def)

lemma alert_log_log_error: "alert_log (log_error m w) = alert_log w"
  by (simp add: log_error_def)

lemma weather_data_table_record_call: "weather_data_table (record_call c w) = weather_data_table w"
  by (simp add: record_call_def)

lemma weather_data_table_log_error: "weather_data_table (log_error m w) = weather_data_table w"
  by (simp add: log_error_def)

lemma errors_logged_log_error: "errors_logged (log_error m w) = errors_logged w @ [m]"
  by (simp add: log_error_def)

lemmas world_simps =
  calls_record_call calls_log_error alert_log_record_call alert_log_log_error

lemma new_calls_append: "calls w' = calls w @ cs \<Longrightarrow> new_calls w w' = cs"
  by (simp add: new_calls_def)

lemma sort_key_empty: "sort_key f xs = [] \<longleftrightarrow> xs = []"
proof -
  have "length (sort_key f xs) = length xs" by (rule length_sort)
  then show ?thesis by (metis length_0_conv)
qed

lemma recent_rows_empty:
  "recent_rows now zone t h rows = [] \<longleftrightarrow>
     (\<forall>r \<in> set rows. row_alert_type r = t \<longrightarrow>
        row_timestamp r - zone + h * 3600000000 \<le> now)"
  by (auto simp add: recent_rows_def interval_hours_def sort_key_empty filter_empty_conv)

lemma get_recent_alerts_calls:
  "calls (snd (get_recent_alerts e t h w)) = calls w @ [GetRecentAlerts t h]"
  by (simp add: get_recent_alerts_def Let_def world_simps split: db_outcome.splits)

lemma get_recent_alerts_alert_log:
  "alert_log (snd (get_recent_alerts e t h w)) = alert_log w"
  by (simp add: get_recent_alerts_def Let_def world_simps split: db_outcome.splits)

lemma get_recent_alerts_result:
  "fst (get_recent_alerts e t h w) =
     (if db e (length (calls w)) = Completed
      then recent_rows (server_now e (length (calls w))) (time_zone e) t h (alert_log w)
      else [])"
  by (simp add: get_recent_alerts_def Let_def split: db_outcome.splits)

lemma send_email_alert_calls:
  "calls (snd (send_email_alert e cfg a wd w)) = calls w @ [SendEmailAlert a]"
  by (simp add: send_email_alert_def Let_def world_simps)

lemma send_email_alert_alert_log:
  "alert_log (snd (send_email_alert e cfg a wd w)) = alert_log w"
  by (simp add: send_email_alert_def Let_def world_simps)

lemma send_email_alert_result:
  "fst (send_email_alert e cfg a wd w) = smtp e (length (calls w))"
  by (simp add: send_email_alert_def Let_def)

lemma insert_alert_log_calls:
  "calls (snd (discard (insert_alert_log e t s m b w))) = calls w @ [InsertAlertLog t s m b]"
  by (simp add: insert_alert_log_def discard_def Let_def world_simps split: db_outcome.splits)

lemma insert_alert_log_completed:
  "db e (length (calls w)) = Completed \<Longrightarrow>
   alert_log (snd (discard (insert_alert_log e t s m b w))) =
     alert_log w @ [\<lparr>row_timestamp = utcnow e (length (calls w)), row_alert_type = t,
                     row_severity = s, row_message = m, row_email_sent = b\<rparr>]"
  by (simp add: insert_alert_log_def discard_def Let_def world_simps)

lemma process_alert_calls:
  "calls (snd (process_alert e cfg a wd w)) = calls w @
     (if fst (get_recent_alerts e (a_type a) (ALERT_COOLDOWN_HOURS cfg) w) \<noteq> []
      then [GetRecentAlerts (a_type a) (ALERT_COOLDOWN_HOURS cfg),
            InsertAlertLog (a_type a) (a_severity a) (a_message a) False]
      else [GetRecentAlerts (a_type a) (ALERT_COOLDOWN_HOURS cfg),
            SendEmailAlert a,
            InsertAlertLog (a_type a) (a_severity a) (a_message a)
              (smtp e (Suc (length (calls w))))])"
proof -
  obtain rs w1 where g: "get_recent_alerts e (a_type a) (ALERT_COOLDOWN_HOURS cfg) w = (rs, w1)"
    by (cases "get_recent_alerts e (a_type a) (ALERT_COOLDOWN_HOURS cfg) w")
  have c1: "calls w1 = calls w @ [GetRecentAlerts (a_type a) (ALERT_COOLDOWN_HOURS cfg)]"
    using get_recent_alerts_calls [of e "a_type a" "ALERT_COOLDOWN_HOURS cfg" w] g by simp
  show ?thesis
  proof (cases "rs = []")
    case False
    then show ?thesis
      using g c1 by (simp add: process_alert_def insert_alert_log_calls)
  next
    case True
    obtain b w2 where s: "send_email_alert e cfg a wd w1 = (b, w2)"
      by (cases "send_email_alert e cfg a wd w1")
    have c2: "calls w2 = calls w1 @ [SendEmailAlert a]"
      using send_email_alert_calls [of e cfg a wd w1] s by simp
    have b: "b = smtp e (Suc (length (calls w)))"
      using send_email_alert_result [of e cfg a wd w1] s c1 by simp
    show ?thesis
      using True g s c1 c2 b by (simp add: process_alert_def insert_alert_log_calls)
  qed
qed

lemma process_alert_cooldown_row:
  assumes "fst (get_recent_alerts e (a_type a) (ALERT_COOLDOWN_HOURS cfg) w) \<noteq> []"
      and "db e (Suc (length (calls w))) = Completed"
  shows "alert_log (snd (process_alert e cfg a wd w)) =
           alert_log w @ [\<lparr>row_timestamp = utcnow e (Suc (length (calls w))),
                           row_alert_type = a_type a, row_severity = a_severity a,
                           row_message = a_message a, row_email_sent = False\<rparr>]"
proof -
  obtain rs w1 where g: "get_recent_alerts e (a_type a) (ALERT_COOLDOWN_HOURS cfg) w = (rs, w1)"
    by (cases "get_recent_alerts e (a_type a) (ALERT_COOLDOWN_HOURS cfg) w")
  have c1: "length (calls w1) = Suc (length (calls w))"
    using get_recent_alerts_calls [of e "a_type a" "ALERT_COOLDOWN_HOURS cfg" w] g by simp
  have l1: "alert_log w1 = alert_log w"
    using get_recent_alerts_alert_log [of e "a_type a" "ALERT_COOLDOWN_HOURS cfg" w] g by simp
  have "rs \<noteq> []" using assms(1) g by simp
  then show ?thesis
    using g c1 l1 assms(2) by (simp add: process_alert_def insert_alert_log_completed)
qed

lemmas concrete_defs =
  env_up_def env_db_down_def env_at_def env_query_fails_def env_api_down_def
  env_mail_down_def http_test_data_def db_completes_def db_unreachable_def
  smtp_accepts_def smtp_refuses_def clock_zero_def
  clock_at_def db_first_call_fails_def http_fails_def env_east_at_def
  short_cooldown_config_def
  empty_world_def world_after_rain_def earlier_rain_row_def heavy_rain_alert_def
  default_config_def test_data_def

section \<open>Properties of the alert dispatch\<close>

text \<open>
  C2. When the cooldown query returns a non-empty list for the kind of an alert,
  \<open>_process_alert\<close> makes two calls, the query and \<open>insert_alert_log\<close> with
  \<open>email_sent=False\<close>: the notifier is not invoked. Where the insert statement
  completes, the alert log gains the row, with \<open>email_sent\<close> false.
\<close>

theorem cooldown_active_logs_without_notifying:
  assumes "fst (get_recent_alerts e (a_type a) (ALERT_COOLDOWN_HOURS cfg) w) \<noteq> []"
  shows "new_calls w (snd (process_alert e cfg a wd w)) =
           [GetRecentAlerts (a_type a) (ALERT_COOLDOWN_HOURS cfg),
            InsertAlertLog (a_type a) (a_severity a) (a_message a) False]
         \<and> \<not> notified a w (snd (process_alert e cfg a wd w))
         \<and> (db e (Suc (length (calls w))) = Completed \<longrightarrow>
              alert_log (snd (process_alert e cfg a wd w)) =
                alert_log w @ [\<lparr>row_timestamp = utcnow e (Suc (length (calls w))),
                                row_alert_type = a_type a, row_severity = a_severity a,
                                row_message = a_message a, row_email_sent = False\<rparr>])"
proof -
  have n: "new_calls w (snd (process_alert e cfg a wd w)) =
           [GetRecentAlerts (a_type a) (ALERT_COOLDOWN_HOURS cfg),
            InsertAlertLog (a_type a) (a_severity a) (a_message a) False]"
    using assms process_alert_calls [of e cfg a wd w] by (simp add: new_calls_append)
  then have "\<not> notified a w (snd (process_alert e cfg a wd w))"
    by (simp add: notified_def)
  then show ?thesis
    using n assms process_alert_cooldown_row [of e a cfg w wd] by blast
qed

theorem cooldown_active_logs_without_notifying_witness:
  "fst (get_recent_alerts env_up (a_type heavy_rain_alert)
          (ALERT_COOLDOWN_HOURS default_config) world_after_rain) \<noteq> []
   \<and> new_calls world_after_rain
        (snd (process_alert env_up default_config heavy_rain_alert test_data world_after_rain)) =
       [GetRecentAlerts ''HEAVY_RAIN'' 6,
        InsertAlertLog ''HEAVY_RAIN'' ''HIGH'' (HeavyRainfallDetected 15 10) False]
   \<and> map row_email_sent (alert_log
        (snd (process_alert env_up default_config heavy_rain_alert test_data world_after_rain))) =
       [True, False]"
proof -
  have h: "fst (get_recent_alerts env_up (a_type heavy_rain_alert)
                  (ALERT_COOLDOWN_HOURS default_config) world_after_rain) \<noteq> []"
    by (simp add: get_recent_alerts_result recent_rows_empty concrete_defs)
  have d: "db env_up (Suc (length (calls world_after_rain))) = Completed"
    by (simp add: concrete_defs)
  show ?thesis
    using h d cooldown_active_logs_without_notifying
                [of env_up heavy_rain_alert default_config world_after_rain test_data]
    by (simp add: concrete_defs)
qed

text \<open>
  C8. When the cooldown query fails (the connection or the statement raises),
  \<open>get_recent_alerts\<close> returns the empty list, and \<open>_process_alert\<close> goes on as
  without cooldown: it invokes the notifier and then calls \<open>insert_alert_log\<close> with
  the notifier's result.
\<close>

theorem failed_query_leads_to_notification:
  assumes "db e (length (calls w)) \<noteq> Completed"
  shows "fst (get_recent_alerts e (a_type a) (ALERT_COOLDOWN_HOURS cfg) w) = []
         \<and> notified a w (snd (process_alert e cfg a wd w))
         \<and> new_calls w (snd (process_alert e cfg a wd w)) =
             [GetRecentAlerts (a_type a) (ALERT_COOLDOWN_HOURS cfg),
              SendEmailAlert a,
              InsertAlertLog (a_type a) (a_severity a) (a_message a)
                (smtp e (Suc (length (calls w))))]"
proof -
  have g: "fst (get_recent_alerts e (a_type a) (ALERT_COOLDOWN_HOURS cfg) w) = []"
    using assms by (simp add: get_recent_alerts_result)
  then have n: "new_calls w (snd (process_alert e cfg a wd w)) =
             [GetRecentAlerts (a_type a) (ALERT_COOLDOWN_HOURS cfg),
              SendEmailAlert a,
              InsertAlertLog (a_type a) (a_severity a) (a_message a)
                (smtp e (Suc (length (calls w))))]"
    using process_alert_calls [of e cfg a wd w] by (simp add: new_calls_append)
  then have "notified a w (snd (process_alert e cfg a wd w))"
    by (simp add: notified_def)
  then show ?thesis using g n by blast
qed

theorem failed_query_leads_to_notification_witness:
  "db env_query_fails (length (calls world_after_rain)) \<noteq> Completed
   \<and> recent_rows 0 0 ''HEAVY_RAIN'' 6 (alert_log world_after_rain) \<noteq> []
   \<and> notified heavy_rain_alert world_after_rain
        (snd (process_alert env_query_fails default_config heavy_rain_alert test_data
                world_after_rain))"
proof -
  have h: "db env_query_fails (length (calls world_after_rain)) \<noteq> Completed"
    by (simp add: concrete_defs)
  have r: "recent_rows 0 0 ''HEAVY_RAIN'' 6 (alert_log world_after_rain) \<noteq> []"
    by (simp add: recent_rows_empty concrete_defs)
  show ?thesis
    using h r failed_query_leads_to_notification
                [of env_query_fails world_after_rain heavy_rain_alert default_config test_data]
    by simp
qed




text \<open>
  The session's TimeZone moves the window: in sessions one hour east of UTC the row of
  timestamp 0 stops suppressing at five hours on the server's clock, not at six.
\<close>

lemma session_time_zone_moves_window:
  "notified heavy_rain_alert world_after_rain
     (snd (process_alert (env_east_at 18000000000) default_config heavy_rain_alert test_data
             world_after_rain))
   \<and> \<not> notified heavy_rain_alert world_after_rain
     (snd (process_alert (env_east_at 17999999999) default_config heavy_rain_alert test_data
             world_after_rain))"
  by (simp add: notified_def new_calls_def process_alert_def
      get_recent_alerts_def recent_rows_def interval_hours_def send_email_alert_def
      insert_alert_log_def discard_def record_call_def log_error_def Let_def concrete_defs)

text \<open>
  The audit calls of one run. \<open>_process_alert\<close> calls \<open>insert_alert_log\<close> exactly
  once for its alert (\<open>process_alert_calls\<close> gives the flag: false in cooldown, the
  notifier's result otherwise). The loop over the alerts does the same for each of
  them as long as no call of \<open>insert_alert_log\<close> raises.
\<close>

lemma audited_types_append:
  "audited_types (xs @ ys) = audited_types xs @ audited_types ys"
  by (induction xs rule: audited_types.induct) simp_all

lemma process_alert_audited:
  "audited_types (new_calls w (snd (process_alert e cfg a wd w))) = [a_type a]"
  using process_alert_calls [of e cfg a wd w] by (simp add: new_calls_append)

lemma process_alerts_calls:
  "\<exists>cs. calls (snd (process_alerts e cfg as wd w)) = calls w @ cs
        \<and> (fst (process_alerts e cfg as wd w) = Inr () \<longrightarrow> audited_types cs = map a_type as)"
proof (induction as arbitrary: w)
  case Nil
  then show ?case by simp
next
  case (Cons a as)
  obtain r w1 where p: "process_alert e cfg a wd w = (r, w1)"
    by (cases "process_alert e cfg a wd w")
  obtain c1 where c1: "calls w1 = calls w @ c1" and a1: "audited_types c1 = [a_type a]"
    using process_alert_calls [of e cfg a wd w] p by (cases "fst (get_recent_alerts e (a_type a) (ALERT_COOLDOWN_HOURS cfg) w) = []") simp_all
  show ?case
  proof (cases r)
    case (Inl err)
    then show ?thesis using p c1 by simp
  next
    case (Inr u)
    obtain cs where cs: "calls (snd (process_alerts e cfg as wd w1)) = calls w1 @ cs"
      and au: "fst (process_alerts e cfg as wd w1) = Inr () \<longrightarrow> audited_types cs = map a_type as"
      using Cons.IH [of w1] by blast
    have "calls (snd (process_alerts e cfg (a # as) wd w)) = calls w @ (c1 @ cs)"
      using p Inr c1 cs by simp
    moreover have "fst (process_alerts e cfg (a # as) wd w) = Inr () \<longrightarrow>
                     audited_types (c1 @ cs) = map a_type (a # as)"
      using p Inr au a1 by (simp add: audited_types_append)
    ultimately show ?thesis by blast
  qed
qed

lemma notifier_failure_is_audited:
  "calls (snd (process_alert env_mail_down default_config heavy_rain_alert test_data
                 empty_world)) =
     [GetRecentAlerts ''HEAVY_RAIN'' 6,
      SendEmailAlert heavy_rain_alert,
      InsertAlertLog ''HEAVY_RAIN'' ''HIGH'' (HeavyRainfallDetected 15 10) False]
   \<and> map row_email_sent
         (alert_log (snd (process_alert env_mail_down default_config heavy_rain_alert test_data
                            empty_world))) = [False]"
  by (simp add: process_alert_def get_recent_alerts_def recent_rows_def send_email_alert_def
      insert_alert_log_def discard_def record_call_def log_error_def Let_def concrete_defs)

lemma one_audit_call_per_alert_unless_raised:
  assumes "fst (check_and_send_alerts e cfg wd w) = Inr ()"
  shows "audited_types (new_calls w (snd (check_and_send_alerts e cfg wd w))) = alert_types cfg wd"
  using assms process_alerts_calls [of e cfg "alerts cfg wd" wd w]
  by (auto simp add: check_and_send_alerts_def alert_types_def new_calls_append)

text \<open>
  C1, at an input where it fails. The reading of test_alert.py raises HEAVY_RAIN and
  STRONG_WIND. With the database out of reach, \<open>_get_connection\<close> raises inside
  \<open>insert_alert_log\<close>, whose handler then reads the unbound \<open>conn\<close>: the
  \<open>UnboundLocalError\<close> leaves \<open>check_and_send_alerts\<close> after the first alert, and
  \<open>insert_alert_log\<close> is never called for STRONG_WIND.
\<close>

theorem audit_record_lost_when_insert_raises:
  "alert_types default_config test_data = [''HEAVY_RAIN'', ''STRONG_WIND'']
   \<and> fst (check_and_send_alerts env_db_down default_config test_data empty_world) =
       Inl UnboundLocalError
   \<and> calls (snd (check_and_send_alerts env_db_down default_config test_data empty_world)) =
       [GetRecentAlerts ''HEAVY_RAIN'' 6,
        SendEmailAlert heavy_rain_alert,
        InsertAlertLog ''HEAVY_RAIN'' ''HIGH'' (HeavyRainfallDetected 15 10) True]
   \<and> audited_types
       (calls (snd (check_and_send_alerts env_db_down default_config test_data empty_world))) =
       [''HEAVY_RAIN'']"
  by (simp add: alert_types_def check_and_send_alerts_def alerts_def get_def process_alert_def
      get_recent_alerts_def send_email_alert_def insert_alert_log_def discard_def
      record_call_def log_error_def Let_def concrete_defs)

section \<open>Properties of the pipeline\<close>

lemma get_current_weather_calls:
  "calls (snd (get_current_weather e lat lon w)) = calls w @ [HttpGet lat lon]"
  by (simp add: get_current_weather_def Let_def world_simps split: http_outcome.splits body.splits)

lemma get_current_weather_tables:
  "weather_data_table (snd (get_current_weather e lat lon w)) = weather_data_table w
   \<and> alert_log (snd (get_current_weather e lat lon w)) = alert_log w"
  by (simp add: get_current_weather_def Let_def world_simps weather_data_table_record_call
      weather_data_table_log_error split: http_outcome.splits body.splits)

lemma get_current_weather_None:
  "fst (get_current_weather e lat lon w) = None \<longleftrightarrow>
     (case http e (length (calls w)) of
        RequestException \<Rightarrow> True
      | Response status_code b \<Rightarrow> status_code \<noteq> 200 \<or> (case b of Unusable k \<Rightarrow> True | Json cur \<Rightarrow> False))"
  by (simp add: get_current_weather_def Let_def split: http_outcome.splits body.splits)

text \<open>
  C9. When \<open>get_current_weather\<close> returns no reading, \<open>run_pipeline\<close> returns
  \<open>False\<close> (it does not raise) after the HTTP request alone: no row is stored in
  either table, no database method and no notifier is called, and the last line logged
  reports the failed fetch.
\<close>

theorem fetch_failure_aborts_cycle:
  assumes "fst (get_current_weather e (LATITUDE cfg) (LONGITUDE cfg) w) = None"
  shows "fst (run_pipeline e cfg w) = False
         \<and> new_calls w (snd (run_pipeline e cfg w)) = [HttpGet (LATITUDE cfg) (LONGITUDE cfg)]
         \<and> weather_data_table (snd (run_pipeline e cfg w)) = weather_data_table w
         \<and> alert_log (snd (run_pipeline e cfg w)) = alert_log w
         \<and> last (errors_logged (snd (run_pipeline e cfg w))) = ''Failed to fetch weather data''"
proof -
  obtain w1 where g: "get_current_weather e (LATITUDE cfg) (LONGITUDE cfg) w = (None, w1)"
    using assms by (cases "get_current_weather e (LATITUDE cfg) (LONGITUDE cfg) w") simp
  have r: "run_pipeline e cfg w = (False, log_error ''Failed to fetch weather data'' w1)"
    using g by (simp add: run_pipeline_def)
  have c: "calls w1 = calls w @ [HttpGet (LATITUDE cfg) (LONGITUDE cfg)]"
    using get_current_weather_calls [of e "LATITUDE cfg" "LONGITUDE cfg" w] g by simp
  have t: "weather_data_table w1 = weather_data_table w \<and> alert_log w1 = alert_log w"
    using get_current_weather_tables [of e "LATITUDE cfg" "LONGITUDE cfg" w] g by simp
  show ?thesis
    using r c t
    by (simp add: new_calls_append world_simps weather_data_table_log_error
        errors_logged_log_error)
qed

theorem fetch_failure_aborts_cycle_witness:
  "fst (get_current_weather env_api_down (LATITUDE default_config) (LONGITUDE default_config)
          empty_world) = None
   \<and> run_pipeline env_api_down default_config empty_world =
       (False, \<lparr>weather_data_table = [], alert_log = [],
                calls = [HttpGet 49.2827 (- 123.1207)],
                errors_logged = [''Error fetching weather data'',
                                 ''Failed to fetch weather data'']\<rparr>)"
proof -
  have h: "fst (get_current_weather env_api_down (LATITUDE default_config)
                  (LONGITUDE default_config) empty_world) = None"
    by (simp add: get_current_weather_None concrete_defs)
  have r: "run_pipeline env_api_down default_config empty_world =
       (False, \<lparr>weather_data_table = [], alert_log = [],
                calls = [HttpGet 49.2827 (- 123.1207)],
                errors_logged = [''Error fetching weather data'',
                                 ''Failed to fetch weather data'']\<rparr>)"
    by (simp add: run_pipeline_def get_current_weather_def record_call_def log_error_def
        Let_def concrete_defs)
  show ?thesis
    using h r fetch_failure_aborts_cycle [OF h] by simp
qed

lemma insert_weather_data_calls:
  "\<exists>c. calls (snd (insert_weather_data e loc lat lon wd w)) = calls w @ [c]"
  by (simp add: insert_weather_data_def Let_def world_simps split: db_outcome.splits)

lemma check_and_send_alerts_calls:
  "\<exists>cs. calls (snd (check_and_send_alerts e cfg wd w)) = calls w @ cs"
  using process_alerts_calls [of e cfg "alerts cfg wd" wd w]
  by (auto simp add: check_and_send_alerts_def)

lemma run_pipeline_calls:
  "\<exists>cs. calls (snd (run_pipeline e cfg w)) =
          calls w @ HttpGet (LATITUDE cfg) (LONGITUDE cfg) # cs"
proof -
  obtain r w1 where g: "get_current_weather e (LATITUDE cfg) (LONGITUDE cfg) w = (r, w1)"
    by (cases "get_current_weather e (LATITUDE cfg) (LONGITUDE cfg) w")
  have c1: "calls w1 = calls w @ [HttpGet (LATITUDE cfg) (LONGITUDE cfg)]"
    using get_current_weather_calls [of e "LATITUDE cfg" "LONGITUDE cfg" w] g by simp
  show ?thesis
  proof (cases r)
    case None
    then show ?thesis using g c1 by (simp add: run_pipeline_def world_simps)
  next
    case (Some wd)
    show ?thesis
    proof (cases "wd = Map.empty")
      case True
      then show ?thesis using g c1 Some by (simp add: run_pipeline_def world_simps)
    next
      case False
      obtain s w2 where i: "insert_weather_data e (LOCATION cfg) (LATITUDE cfg) (LONGITUDE cfg) wd w1 = (s, w2)"
        by (cases "insert_weather_data e (LOCATION cfg) (LATITUDE cfg) (LONGITUDE cfg) wd w1")
      obtain c where c2: "calls w2 = calls w1 @ [c]"
        using insert_weather_data_calls [of e "LOCATION cfg" "LATITUDE cfg" "LONGITUDE cfg" wd w1] i
        by auto
      obtain cs where c3: "calls (snd (check_and_send_alerts e cfg wd w2)) = calls w2 @ cs"
        using check_and_send_alerts_calls by blast
      show ?thesis
        using g Some False i c1 c2 c3
        by (auto simp add: run_pipeline_def world_simps split: sum.splits prod.splits)
    qed
  qed
qed

lemma test_connection_calls:
  "calls (snd (test_connection e w)) = calls w @ [SelectOne]"
  by (simp add: test_connection_def Let_def world_simps split: db_outcome.splits)

lemma test_connection_result:
  "fst (test_connection e w) = (db e (length (calls w)) = Completed)"
  by (simp add: test_connection_def Let_def split: db_outcome.splits)

lemma main_cycle_started:
  "cycle_started cfg w (main e cfg w) \<longleftrightarrow> db e (length (calls w)) = Completed"
proof -
  obtain ok w1 where t: "test_connection e w = (ok, w1)"
    by (cases "test_connection e w")
  have c1: "calls w1 = calls w @ [SelectOne]"
    using test_connection_calls [of e w] t by simp
  have ok: "ok = (db e (length (calls w)) = Completed)"
    using test_connection_result [of e w] t by simp
  show ?thesis
  proof (cases ok)
    case False
    then have "calls (main e cfg w) = calls w @ [SelectOne]"
      using t c1 by (simp add: main_def world_simps)
    then show ?thesis
      using False ok by (simp add: cycle_started_def new_calls_append)
  next
    case True
    obtain cs where "calls (snd (run_pipeline e cfg w1)) =
                       calls w1 @ HttpGet (LATITUDE cfg) (LONGITUDE cfg) # cs"
      using run_pipeline_calls by blast
    then have "calls (main e cfg w) =
                 calls w @ (SelectOne # HttpGet (LATITUDE cfg) (LONGITUDE cfg) # cs)"
      using True t c1 by (simp add: main_def)
    then show ?thesis
      using True ok by (simp add: cycle_started_def new_calls_append)
  qed
qed

text \<open>
  C7, as the code has it. A configuration whose low-temperature threshold is greater
  than or equal to its high-temperature threshold is not detected at startup:
  \<open>main\<close> runs the first pipeline cycle exactly when the database connection test
  succeeds, and \<open>Config.validate\<close> (which \<open>main\<close> does not call) gives the same
  result whatever the two thresholds are.
\<close>

theorem threshold_invariant_not_checked_at_startup:
  assumes "EXTREME_TEMP_LOW cfg \<ge> EXTREME_TEMP_HIGH cfg"
  shows "(cycle_started cfg w (main e cfg w) \<longleftrightarrow> db e (length (calls w)) = Completed)
         \<and> validate cfg = validate (cfg\<lparr>EXTREME_TEMP_LOW := lo, EXTREME_TEMP_HIGH := hi\<rparr>)"
  using main_cycle_started [of cfg w e] by (simp add: validate_def)

theorem threshold_invariant_not_checked_at_startup_witness:
  "EXTREME_TEMP_LOW inverted_config \<ge> EXTREME_TEMP_HIGH inverted_config
   \<and> db env_up (length (calls empty_world)) = Completed
   \<and> cycle_started inverted_config empty_world (main env_up inverted_config empty_world)
   \<and> validate inverted_config = validate default_config"
proof -
  have h: "EXTREME_TEMP_LOW inverted_config \<ge> EXTREME_TEMP_HIGH inverted_config"
    by (simp add: inverted_config_def default_config_def)
  have d: "db env_up (length (calls empty_world)) = Completed"
    by (simp add: concrete_defs)
  have c: "inverted_config\<lparr>EXTREME_TEMP_LOW := 0, EXTREME_TEMP_HIGH := 35\<rparr> = default_config"
    by (simp add: inverted_config_def default_config_def)
  show ?thesis
    using h d c threshold_invariant_not_checked_at_startup
                  [OF h, where w = empty_world and e = env_up and lo = 0 and hi = 35]
    by simp
qed

text \<open>
  C7, as the claim states it, fails: with the low threshold at 35 and the high one at 0
  the configuration validates, \<open>main\<close> tests the connection and starts the cycle, and
  the cycle raises its alerts (EXTREME_COLD at 30 degrees among them).
\<close>

theorem inverted_thresholds_counterexample:
  "EXTREME_TEMP_LOW inverted_config \<ge> EXTREME_TEMP_HIGH inverted_config
   \<and> validate inverted_config
   \<and> take 2 (calls (main env_up inverted_config empty_world)) =
       [SelectOne, HttpGet 49.2827 (- 123.1207)]
   \<and> map row_alert_type (alert_log (main env_up inverted_config empty_world)) =
       [''HEAVY_RAIN'', ''STRONG_WIND'', ''EXTREME_COLD'']"
  by (simp add: main_def test_connection_def run_pipeline_def get_current_weather_def
      insert_weather_data_def check_and_send_alerts_def alerts_def get_def process_alert_def
      get_recent_alerts_def recent_rows_def send_email_alert_def insert_alert_log_def discard_def
      record_call_def log_error_def Let_def validate_def inverted_config_def concrete_defs)

end
